theory Spec2Isabelle
  imports Complex_Main "HOL-Library.Sublist" "HOL-Library.Word"
begin

section \<open>The external-plugin adapter of pedalboard (ExternalPlugin.h)\<close>

text \<open>
  The adapter is glue around the JUCE plugin host. Everything JUCE or the
  plugin binary decides (whether a file exists, what a scan finds, whether an
  instance can be created, how a bus answers a layout request, what a block
  of audio becomes) is a field of the record \<open>juce\<close> below and is a parameter
  of every operation; the adapter's own control flow, its global counter, its
  exceptions and its messages are translated from the header.
\<close>

subsection \<open>Exceptions\<close>

text \<open>
  \<open>pybind11::import_error\<close>, \<open>std::invalid_argument\<close> and \<open>std::runtime_error\<close>
  with their messages. \<open>undefined_behaviour\<close> stands for an execution that
  leaves defined C++: a null pointer dereferenced or a vector indexed out of
  range.
\<close>

datatype error =
    import_error string
  | invalid_argument string
  | runtime_error string
  | undefined_behaviour string

subsection \<open>Strings\<close>

text \<open>\<open>std::to_string\<close> on an integer: decimal digits, a minus sign when negative.\<close>

definition digit_char :: "nat \<Rightarrow> char" where
  "digit_char d = ''0123456789'' ! (d mod 10)"

function string_of_nat :: "nat \<Rightarrow> string" where
  "string_of_nat n =
     (if n < 10 then [digit_char n] else string_of_nat (n div 10) @ [digit_char (n mod 10)])"
  by pat_completeness auto
termination
  by (relation "measure id") auto

declare string_of_nat.simps [simp del]

definition to_string :: "int \<Rightarrow> string" where
  "to_string i = (if i < 0 then CHR ''-'' # string_of_nat (nat (- i)) else string_of_nat (nat i))"

text \<open>
  \<open>juce::String::trimCharactersAtEnd\<close>: drops from the end every character that
  occurs in the second string.
\<close>

definition trimCharactersAtEnd :: "string \<Rightarrow> string \<Rightarrow> string" where
  "trimCharactersAtEnd s cs = rev (dropWhile (\<lambda>c. c \<in> set cs) (rev s))"

subsection \<open>The native objects\<close>

type_synonym MemoryBlock = "nat list"

type_synonym PluginDescription = string

text \<open>A \<open>juce::File\<close> is the full path name it holds.\<close>

type_synonym File = string

definition getFullPathName :: "File \<Rightarrow> string" where
  "getFullPathName f = f"

record Bus =
  isEnabled :: bool
  getNumberOfChannels :: int

record AudioProcessorParameter =
  getParameterIndex :: int
  param_getName :: "int \<Rightarrow> string"

text \<open>
  A live \<open>juce::AudioPluginInstance\<close> as far as the adapter observes it: its
  name, its input and output buses (\<open>getBusCount\<close> is the length of the list,
  \<open>getBus\<close> the element or a null pointer), its parameter list, and the state
  the plugin binary keeps for itself.
\<close>

record AudioPluginInstance =
  getName :: string
  inputBuses :: "Bus list"
  outputBuses :: "Bus list"
  getParameters :: "AudioProcessorParameter list"
  nativeState :: MemoryBlock

definition buses :: "AudioPluginInstance \<Rightarrow> bool \<Rightarrow> Bus list" where
  "buses inst isInput = (if isInput then inputBuses inst else outputBuses inst)"

definition getBusCount :: "AudioPluginInstance \<Rightarrow> bool \<Rightarrow> nat" where
  "getBusCount inst isInput = length (buses inst isInput)"

definition getBus :: "AudioPluginInstance \<Rightarrow> bool \<Rightarrow> nat \<Rightarrow> Bus option" where
  "getBus inst isInput i =
     (if i < getBusCount inst isInput then Some (buses inst isInput ! i) else None)"

text \<open>
  \<open>getMainBusNumInputChannels\<close> and \<open>getMainBusNumOutputChannels\<close>: the channel
  count of bus 0, and 0 when there is no such bus.
\<close>

definition getChannelCountOfBus :: "AudioPluginInstance \<Rightarrow> bool \<Rightarrow> nat \<Rightarrow> int" where
  "getChannelCountOfBus inst isInput i =
     (case getBus inst isInput i of None \<Rightarrow> 0 | Some b \<Rightarrow> getNumberOfChannels b)"

definition getMainBusNumInputChannels :: "AudioPluginInstance \<Rightarrow> int" where
  "getMainBusNumInputChannels inst = getChannelCountOfBus inst True 0"

definition getMainBusNumOutputChannels :: "AudioPluginInstance \<Rightarrow> int" where
  "getMainBusNumOutputChannels inst = getChannelCountOfBus inst False 0"

text \<open>
  A layout request (\<open>disableNonMainBuses\<close>, \<open>Bus::enable\<close>,
  \<open>Bus::setNumberOfChannels\<close>) is answered by the plugin with a layout for each
  of its buses; the number of buses of an instance does not change.
\<close>

type_synonym BusesLayout = "bool \<Rightarrow> nat \<Rightarrow> Bus"

definition applyLayout :: "AudioPluginInstance \<Rightarrow> BusesLayout \<Rightarrow> AudioPluginInstance" where
  "applyLayout inst l =
     inst\<lparr>inputBuses := map (l True) [0..<length (inputBuses inst)],
          outputBuses := map (l False) [0..<length (outputBuses inst)]\<rparr>"

text \<open>
  What \<open>process\<close> hands to the plugin for each channel slot: a pointer into the
  caller's block, or the address of a scratch vector. The scratch vector of
  the source is local to one loop iteration (a copy of it is kept, the
  pointer is to the original), so the slot is recorded as such and no
  contents are given to it.
\<close>

datatype channel_pointer = CallerChannel nat | DummyChannel | NullPointer

record 's AudioBlock =
  channelData :: "'s list list"
  getNumSamples :: nat

definition getNumChannels_block :: "'s AudioBlock \<Rightarrow> nat" where
  "getNumChannels_block b = length (channelData b)"

record 's ProcessContextReplacing =
  usesSeparateInputAndOutputBlocks :: bool
  getOutputBlock :: "'s AudioBlock"

record ProcessSpec =
  sampleRate :: real
  maximumBlockSize :: "32 word"
  numChannels :: "32 word"

subsection \<open>The host framework, the file system and the plugin binaries\<close>

record 's juce =
  getSeparatorString :: string
  JUCE_LINUX :: bool
  uname_machine :: "string option"
  File_exists :: "string \<Rightarrow> bool"
  File_File :: "string \<Rightarrow> File"
  File_getChildFile :: "File \<Rightarrow> string \<Rightarrow> File"
  File_getFileNameWithoutExtension :: "File \<Rightarrow> string"
  scanAndAddFile :: "string \<Rightarrow> PluginDescription list"
  createPluginInstance ::
    "PluginDescription \<Rightarrow> int \<Rightarrow> int \<Rightarrow> AudioPluginInstance option \<times> string"
  getStateInformation :: "AudioPluginInstance \<Rightarrow> MemoryBlock"
  setStateInformation :: "AudioPluginInstance \<Rightarrow> MemoryBlock \<Rightarrow> AudioPluginInstance"
  instance_reset :: "AudioPluginInstance \<Rightarrow> AudioPluginInstance"
  disableNonMainBuses :: "AudioPluginInstance \<Rightarrow> BusesLayout"
  Bus_enable :: "AudioPluginInstance \<Rightarrow> bool \<Rightarrow> nat \<Rightarrow> bool \<Rightarrow> BusesLayout"
  Bus_setNumberOfChannels :: "AudioPluginInstance \<Rightarrow> bool \<Rightarrow> nat \<Rightarrow> int \<Rightarrow> BusesLayout"
  setRateAndBufferSizeDetails :: "AudioPluginInstance \<Rightarrow> real \<Rightarrow> int \<Rightarrow> AudioPluginInstance"
  prepareToPlay :: "AudioPluginInstance \<Rightarrow> real \<Rightarrow> int \<Rightarrow> AudioPluginInstance"
  setNonRealtime :: "AudioPluginInstance \<Rightarrow> bool \<Rightarrow> AudioPluginInstance"
  processBlock ::
    "AudioPluginInstance \<Rightarrow> channel_pointer list \<Rightarrow> 's AudioBlock
       \<Rightarrow> AudioPluginInstance \<times> 's AudioBlock"

subsection \<open>Global state\<close>

text \<open>
  \<open>NUM_ACTIVE_EXTERNAL_PLUGINS\<close>, whether the \<open>juce::MessageManager\<close> singleton
  exists, and the calls made so far into the framework and on the counter,
  oldest first. The mutex is not modelled: every operation here runs alone.
\<close>

datatype call =
    MessageManager_getInstance
  | addDefaultFormats
  | Call_exists string
  | Call_scanAndAddFile string
  | Call_getStateInformation
  | Call_destroyInstance
  | Call_decrement
  | Call_createPluginInstance PluginDescription int int
  | Call_increment
  | Call_setStateInformation MemoryBlock
  | Call_reset
  | DeletedAtShutdown_deleteAll
  | MessageManager_deleteInstance

record global =
  NUM_ACTIVE_EXTERNAL_PLUGINS :: int
  messageManager :: bool
  calls :: "call list"

definition initial_global :: global where
  "initial_global = \<lparr>NUM_ACTIVE_EXTERNAL_PLUGINS = 0, messageManager = False, calls = []\<rparr>"

definition called :: "call list \<Rightarrow> global \<Rightarrow> global" where
  "called cs g = g\<lparr>calls := calls g @ cs\<rparr>"

subsection \<open>The handle\<close>

record ExternalPlugin =
  pathToPluginFile :: string
  foundPluginDescription :: PluginDescription
  pluginInstance :: "AudioPluginInstance option"

definition ExternalLoadSampleRate :: int where
  "ExternalLoadSampleRate = 44100"

definition ExternalLoadMaximumBlockSize :: int where
  "ExternalLoadMaximumBlockSize = 8192"

text \<open>
  \<open>reinstantiatePlugin\<close>. The result is the exception or normal return, the
  global state and the handle afterwards.
\<close>

definition reinstantiatePlugin ::
  "'s juce \<Rightarrow> global \<Rightarrow> ExternalPlugin \<Rightarrow> (error + unit) \<times> global \<times> ExternalPlugin" where
  "reinstantiatePlugin env g h =
     (let (savedState, g1, h1) =
            (case pluginInstance h of
               Some old \<Rightarrow>
                 (getStateInformation env old,
                  called [Call_getStateInformation, Call_destroyInstance, Call_decrement]
                    (g\<lparr>NUM_ACTIVE_EXTERNAL_PLUGINS := NUM_ACTIVE_EXTERNAL_PLUGINS g - 1\<rparr>),
                  h\<lparr>pluginInstance := None\<rparr>)
             | None \<Rightarrow> ([], g, h));
          (created, loadError) =
            createPluginInstance env (foundPluginDescription h1)
              ExternalLoadSampleRate ExternalLoadMaximumBlockSize;
          g2 = called [Call_createPluginInstance (foundPluginDescription h1)
                         ExternalLoadSampleRate ExternalLoadMaximumBlockSize] g1
      in case created of
           None \<Rightarrow>
             (Inl (import_error (''Unable to load plugin '' @ pathToPluginFile h1 @ '': ''
                                  @ loadError)),
              g2, h1\<lparr>pluginInstance := None\<rparr>)
         | Some fresh \<Rightarrow>
             (Inr (),
              called [Call_increment, Call_setStateInformation savedState, Call_reset]
                (g2\<lparr>NUM_ACTIVE_EXTERNAL_PLUGINS := NUM_ACTIVE_EXTERNAL_PLUGINS g2 + 1\<rparr>),
              h1\<lparr>pluginInstance :=
                   Some (instance_reset env (setStateInformation env fresh savedState))\<rparr>))"

text \<open>
  The destructor: the handle is gone afterwards, so only the global state is
  returned.
\<close>

definition destructor :: "global \<Rightarrow> ExternalPlugin \<Rightarrow> global" where
  "destructor g h =
     (let g1 = called ((if pluginInstance h = None then [] else [Call_destroyInstance])
                        @ [Call_decrement])
                 (g\<lparr>NUM_ACTIVE_EXTERNAL_PLUGINS := NUM_ACTIVE_EXTERNAL_PLUGINS g - 1\<rparr>)
      in if NUM_ACTIVE_EXTERNAL_PLUGINS g1 = 0
         then called [DeletedAtShutdown_deleteAll, MessageManager_deleteInstance]
                (g1\<lparr>messageManager := False\<rparr>)
         else g1)"


subsection \<open>Construction\<close>

definition apostrophe :: string where
  "apostrophe = [CHR 0x27]"

definition double_quote :: string where
  "double_quote = [CHR 0x22]"

definition backtick :: string where
  "backtick = [CHR 0x60]"

definition not_found_message :: "string \<Rightarrow> string" where
  "not_found_message path = ''Unable to load plugin '' @ path @ '': plugin file not found.''"

text \<open>The path named by the dependency hint (the branch under \<open>JUCE_LINUX\<close>).\<close>

definition pathToSharedObjectFile :: "'s juce \<Rightarrow> string \<Rightarrow> File" where
  "pathToSharedObjectFile env pluginFileStripped =
     (let machineName = (case uname_machine env of None \<Rightarrow> [] | Some m \<Rightarrow> m);
          pluginBundle = File_File env pluginFileStripped
      in File_getChildFile env
           (File_getChildFile env
              (File_getChildFile env pluginBundle ''Contents'')
              (machineName @ ''-linux''))
           (File_getFileNameWithoutExtension env pluginBundle @ ''.so''))"

definition load_failure_message :: "'s juce \<Rightarrow> string \<Rightarrow> string \<Rightarrow> string" where
  "load_failure_message env path pluginFileStripped =
     (if JUCE_LINUX env
      then ''Unable to load plugin '' @ path
           @ '': unsupported plugin format or load failure. Plugin files or ''
           @ ''shared library dependencies may be missing. (Try running ''
           @ backtick @ ''ldd '' @ double_quote
           @ getFullPathName (pathToSharedObjectFile env pluginFileStripped)
           @ double_quote @ backtick @ '' to ''
           @ ''see which dependencies might be missing.).''
      else ''Unable to load plugin '' @ path
           @ '': unsupported plugin format or load failure.'')"

text \<open>
  The constructor. When it throws there is no handle, and the destructor does
  not run.
\<close>

definition ExternalPlugin_ctor ::
  "'s juce \<Rightarrow> global \<Rightarrow> string \<Rightarrow> (error + ExternalPlugin) \<times> global" where
  "ExternalPlugin_ctor env g path =
     (let g1 = called [MessageManager_getInstance, addDefaultFormats]
                 (g\<lparr>messageManager := True\<rparr>);
          pluginFileStripped = trimCharactersAtEnd path (getSeparatorString env);
          fileExists = File_exists env pluginFileStripped;
          g2 = called [Call_exists pluginFileStripped] g1
      in if \<not> fileExists then (Inl (import_error (not_found_message path)), g2)
         else
           (let typesFound = scanAndAddFile env pluginFileStripped;
                g3 = called [Call_scanAndAddFile pluginFileStripped] g2
            in if typesFound \<noteq> []
               then (case reinstantiatePlugin env g3
                            \<lparr>pathToPluginFile = path,
                             foundPluginDescription = typesFound ! 0,
                             pluginInstance = None\<rparr> of
                       (Inl e, g4, h) \<Rightarrow> (Inl e, g4)
                     | (Inr u, g4, h) \<Rightarrow> (Inr h, g4))
               else (Inl (import_error (load_failure_message env path pluginFileStripped)),
                     g3)))"

subsection \<open>Channel negotiation\<close>

text \<open>
  Each iteration of \<open>for (int i = 1; i < getBusCount(isInput); i++) getBus(isInput, i)->enable(false)\<close>.
\<close>

function disableBusesFrom ::
  "'s juce \<Rightarrow> bool \<Rightarrow> nat \<Rightarrow> AudioPluginInstance \<Rightarrow> AudioPluginInstance" where
  "disableBusesFrom env isInput i inst =
     (if i < getBusCount inst isInput
      then disableBusesFrom env isInput (i + 1)
             (applyLayout inst (Bus_enable env inst isInput i False))
      else inst)"
  by pat_completeness auto
termination
  by (relation "measure (\<lambda>(env, isInput, i, inst). getBusCount inst isInput - i)")
    (auto simp: getBusCount_def buses_def applyLayout_def)

declare disableBusesFrom.simps [simp del]

definition no_input_message :: "string \<Rightarrow> string" where
  "no_input_message name =
     ''Plugin '' @ apostrophe @ name @ apostrophe
     @ '' does not accept audio input. It may be an instrument plug-in ''
     @ ''and not an audio effect processor.''"

definition unsupported_message :: "string \<Rightarrow> int \<Rightarrow> int \<Rightarrow> int \<Rightarrow> string" where
  "unsupported_message name n actualIn actualOut =
     ''Plugin '' @ apostrophe @ name @ apostrophe
     @ '' does not support '' @ to_string n
     @ ''-channel input and output. (Main bus currently expects ''
     @ to_string actualIn @ '' input channels and ''
     @ to_string actualOut @ '' output channels.)''"

definition setNumChannels ::
  "'s juce \<Rightarrow> ExternalPlugin \<Rightarrow> int \<Rightarrow> (error + unit) \<times> ExternalPlugin" where
  "setNumChannels env h n =
     (case pluginInstance h of
        None \<Rightarrow> (Inr (), h)
      | Some inst0 \<Rightarrow>
          (let inst1 = applyLayout inst0 (disableNonMainBuses env inst0);
               mainInputBus = getBus inst1 True 0;
               mainOutputBus = getBus inst1 False 0
           in if mainInputBus = None
              then (Inl (invalid_argument (no_input_message (getName inst1))),
                    h\<lparr>pluginInstance := Some inst1\<rparr>)
              else
                (let inst2 = disableBusesFrom env True 1 inst1;
                     inst3 = disableBusesFrom env False 1 inst2;
                     inst4 = applyLayout inst3 (Bus_setNumberOfChannels env inst3 True 0 n)
                 in if mainOutputBus = None
                    then (Inl (undefined_behaviour ''mainOutputBus is a null pointer''),
                          h\<lparr>pluginInstance := Some inst4\<rparr>)
                    else
                      (let inst5 = applyLayout inst4
                                     (Bus_setNumberOfChannels env inst4 False 0 n);
                           actualIn = getChannelCountOfBus inst5 True 0;
                           actualOut = getChannelCountOfBus inst5 False 0
                       in if actualIn \<noteq> n \<or> actualOut \<noteq> n
                          then (Inl (invalid_argument
                                       (unsupported_message (getName inst5) n actualIn actualOut)),
                                h\<lparr>pluginInstance := Some inst5\<rparr>)
                          else (Inr (), h\<lparr>pluginInstance := Some inst5\<rparr>)))))"

text \<open>\<open>prepare\<close>: the \<open>uint32\<close> fields of the spec are converted to \<open>int\<close>.\<close>

definition prepare ::
  "'s juce \<Rightarrow> ExternalPlugin \<Rightarrow> ProcessSpec \<Rightarrow> (error + unit) \<times> ExternalPlugin" where
  "prepare env h spec =
     (case pluginInstance h of
        None \<Rightarrow> (Inr (), h)
      | Some inst0 \<Rightarrow>
          (case setNumChannels env h (sint (numChannels spec)) of
             (Inl e, h1) \<Rightarrow> (Inl e, h1)
           | (Inr u, h1) \<Rightarrow>
               (Inr (),
                h1\<lparr>pluginInstance :=
                     map_option
                       (\<lambda>i. setNonRealtime env
                              (prepareToPlay env
                                 (setRateAndBufferSizeDetails env i (sampleRate spec)
                                    (sint (maximumBlockSize spec)))
                                 (sampleRate spec) (sint (maximumBlockSize spec)))
                              True)
                       (pluginInstance h1)\<rparr>)))"

subsection \<open>Block processing\<close>

text \<open>Conversion to \<open>size_t\<close> and addition in it (64 bits).\<close>

definition size_t_of_int :: "int \<Rightarrow> nat" where
  "size_t_of_int i = nat (i mod 2 ^ 64)"

fun pluginBufferChannelCount :: "Bus list \<Rightarrow> nat \<Rightarrow> nat" where
  "pluginBufferChannelCount [] acc = acc"
| "pluginBufferChannelCount (b # bs) acc =
     pluginBufferChannelCount bs
       (if isEnabled b then (acc + size_t_of_int (getNumberOfChannels b)) mod 2 ^ 64 else acc)"

text \<open>
  \<open>channelPointers[i] = outputBlock.getChannelPointer(i)\<close> for each channel of
  the caller's block. \<open>std::vector::operator[]\<close> does not check its index.
\<close>

fun storeCallerPointers ::
  "nat list \<Rightarrow> channel_pointer list \<Rightarrow> error + channel_pointer list" where
  "storeCallerPointers [] ps = Inr ps"
| "storeCallerPointers (i # rest) ps =
     (if i < length ps then storeCallerPointers rest (ps[i := CallerChannel i])
      else Inl (undefined_behaviour ''channelPointers indexed out of range''))"

definition storeDummyPointers ::
  "nat list \<Rightarrow> channel_pointer list \<Rightarrow> channel_pointer list" where
  "storeDummyPointers idxs ps = foldl (\<lambda>qs i. qs[i := DummyChannel]) ps idxs"

definition input_mismatch_message :: "string \<Rightarrow> int \<Rightarrow> nat \<Rightarrow> string" where
  "input_mismatch_message name expected actual =
     ''Plugin '' @ apostrophe @ name @ apostrophe
     @ '' was instantiated with '' @ to_string expected
     @ ''-channel input, but data provided was '' @ string_of_nat actual @ ''-channel.''"

definition output_mismatch_message :: "string \<Rightarrow> int \<Rightarrow> nat \<Rightarrow> string" where
  "output_mismatch_message name produced actual =
     ''Plugin '' @ apostrophe @ name @ apostrophe
     @ '' produces '' @ to_string produced
     @ ''-channel output, but data provided was '' @ string_of_nat actual
     @ ''-channel. (The number of channels returned must match the ''
     @ ''number of channels passed in.)''"

text \<open>
  \<open>process\<close>: the exception or normal return, the handle, and the caller's
  block afterwards.
\<close>

definition process ::
  "'s juce \<Rightarrow> ExternalPlugin \<Rightarrow> 's ProcessContextReplacing
     \<Rightarrow> (error + unit) \<times> ExternalPlugin \<times> 's AudioBlock" where
  "process env h context =
     (let outputBlock = getOutputBlock context in
      case pluginInstance h of
        None \<Rightarrow> (Inr (), h, outputBlock)
      | Some inst \<Rightarrow>
          if usesSeparateInputAndOutputBlocks context
          then (Inl (runtime_error
                  (''Not implemented yet - '' @ ''no support for using separate ''
                   @ ''input and output blocks.'')),
                h, outputBlock)
          else
            (let count = pluginBufferChannelCount (inputBuses inst) 0;
                 provided = getNumChannels_block outputBlock
             in case storeCallerPointers [0..<provided] (replicate count NullPointer) of
                  Inl e \<Rightarrow> (Inl e, h, outputBlock)
                | Inr ps \<Rightarrow>
                    (let channelPointers = storeDummyPointers [provided..<count] ps
                     in if size_t_of_int (getMainBusNumInputChannels inst) \<noteq> provided
                        then (Inl (invalid_argument
                                (input_mismatch_message (getName inst)
                                   (getMainBusNumInputChannels inst) provided)),
                              h, outputBlock)
                        else if size_t_of_int (getMainBusNumOutputChannels inst) < provided
                        then (Inl (invalid_argument
                                (output_mismatch_message (getName inst)
                                   (getMainBusNumOutputChannels inst) provided)),
                              h, outputBlock)
                        else
                          (let (inst', block') = processBlock env inst channelPointers outputBlock
                           in (Inr (), h\<lparr>pluginInstance := Some inst'\<rparr>, block')))))"

subsection \<open>Parameter lookup\<close>

fun findParameter ::
  "string \<Rightarrow> AudioProcessorParameter list \<Rightarrow> AudioProcessorParameter option" where
  "findParameter name [] = None"
| "findParameter name (p # ps) =
     (if param_getName p 512 = name then Some p else findParameter name ps)"

text \<open>
  \<open>getParameter\<close> dereferences \<open>pluginInstance\<close> without a test; \<open>Inr None\<close> is
  the null pointer it returns when no parameter matches.
\<close>

definition getParameter ::
  "ExternalPlugin \<Rightarrow> string \<Rightarrow> error + AudioProcessorParameter option" where
  "getParameter h name =
     (case pluginInstance h of
        None \<Rightarrow> Inl (undefined_behaviour ''pluginInstance is a null pointer'')
      | Some inst \<Rightarrow> Inr (findParameter name (getParameters inst)))"

subsection \<open>Sequences of constructions and destructions\<close>

text \<open>
  The process as a whole: the global state and the handles that exist. A
  construction that throws leaves no handle; a destruction names a handle by
  its position among the existing ones, and there is nothing to destroy at a
  position that holds none.
\<close>

record system =
  glob :: global
  handles :: "ExternalPlugin list"

datatype 's event = Construct "'s juce" string | Destroy nat

definition initial_system :: system where
  "initial_system = \<lparr>glob = initial_global, handles = []\<rparr>"

fun step :: "system \<Rightarrow> 's event \<Rightarrow> system" where
  "step s (Construct env path) =
     (case ExternalPlugin_ctor env (glob s) path of
        (Inl e, g) \<Rightarrow> s\<lparr>glob := g\<rparr>
      | (Inr h, g) \<Rightarrow> \<lparr>glob = g, handles = handles s @ [h]\<rparr>)"
| "step s (Destroy k) =
     (if k < length (handles s)
      then \<lparr>glob = destructor (glob s) (handles s ! k),
            handles = take k (handles s) @ drop (Suc k) (handles s)\<rparr>
      else s)"

definition run :: "system \<Rightarrow> 's event list \<Rightarrow> system" where
  "run s evs = foldl step s evs"

text \<open>Whether a construction returns a handle; the global state has no part in it.\<close>

fun succeeds :: "'s event \<Rightarrow> bool" where
  "succeeds (Construct env path) = (\<not> isl (fst (ExternalPlugin_ctor env initial_global path)))"
| "succeeds (Destroy k) = True"

subsection \<open>A concrete host for evaluation\<close>

text \<open>
  One plugin file, \<open>/plugins/Reverb.vst3\<close>, whose scan finds two descriptions;
  the plugin has one input and one output bus and accepts one or two channels
  on each. A second bundle, \<open>/plugins/Broken.vst3\<close>, exists and scans to
  nothing.
\<close>

definition reverb_instance :: AudioPluginInstance where
  "reverb_instance =
     \<lparr>getName = ''Reverb'',
      inputBuses = [\<lparr>isEnabled = True, getNumberOfChannels = 2\<rparr>],
      outputBuses = [\<lparr>isEnabled = True, getNumberOfChannels = 2\<rparr>],
      getParameters =
        [\<lparr>getParameterIndex = 0, param_getName = (\<lambda>n. take (nat n) ''Mix'')\<rparr>,
         \<lparr>getParameterIndex = 1, param_getName = (\<lambda>n. take (nat n) ''Size'')\<rparr>,
         \<lparr>getParameterIndex = 2, param_getName = (\<lambda>n. take (nat n) ''Mix'')\<rparr>],
      nativeState = [7, 7]\<rparr>"

definition change_bus ::
  "AudioPluginInstance \<Rightarrow> bool \<Rightarrow> nat \<Rightarrow> (Bus \<Rightarrow> Bus) \<Rightarrow> BusesLayout" where
  "change_bus inst isInput i f =
     (\<lambda>dir k. if dir = isInput \<and> k = i then f (buses inst dir ! k) else buses inst dir ! k)"

definition example_host :: "'s juce" where
  "example_host =
     \<lparr>getSeparatorString = ''/'',
      JUCE_LINUX = True,
      uname_machine = Some ''x86_64'',
      File_exists = (\<lambda>p. p = ''/plugins/Reverb.vst3'' \<or> p = ''/plugins/Broken.vst3''),
      File_File = (\<lambda>p. p),
      File_getChildFile = (\<lambda>f c. f @ ''/'' @ c),
      File_getFileNameWithoutExtension =
        (\<lambda>f. takeWhile (\<lambda>c. c \<noteq> CHR ''.'') (rev (takeWhile (\<lambda>c. c \<noteq> CHR ''/'') (rev f)))),
      scanAndAddFile =
        (\<lambda>p. if p = ''/plugins/Reverb.vst3'' then [''Reverb'', ''Reverb (mono)''] else []),
      createPluginInstance =
        (\<lambda>d rate block.
           if d = ''Reverb'' then (Some reverb_instance, [])
           else (None, ''No compatible plug-in format exists for this plug-in'')),
      getStateInformation = nativeState,
      setStateInformation = (\<lambda>inst m. inst\<lparr>nativeState := m\<rparr>),
      instance_reset = (\<lambda>inst. inst),
      disableNonMainBuses =
        (\<lambda>inst dir k. if k = 0 then buses inst dir ! k
                      else \<lparr>isEnabled = False, getNumberOfChannels = 0\<rparr>),
      Bus_enable = (\<lambda>inst isInput i on. change_bus inst isInput i (\<lambda>b. b\<lparr>isEnabled := on\<rparr>)),
      Bus_setNumberOfChannels =
        (\<lambda>inst isInput i n.
           change_bus inst isInput i
             (\<lambda>b. if n = 1 \<or> n = 2 then b\<lparr>getNumberOfChannels := n\<rparr> else b)),
      setRateAndBufferSizeDetails = (\<lambda>inst rate block. inst),
      prepareToPlay = (\<lambda>inst rate block. inst),
      setNonRealtime = (\<lambda>inst on. inst),
      processBlock = (\<lambda>inst ps block. (inst, block))\<rparr>"

text \<open>The same host once the plugin can no longer be instantiated.\<close>

definition failing_host :: "'s juce" where
  "failing_host =
     example_host\<lparr>createPluginInstance :=
       (\<lambda>d rate block. (None, ''No compatible plug-in format exists for this plug-in''))\<rparr>"

text \<open>The global state while one handle exists.\<close>

definition running_global :: global where
  "running_global = \<lparr>NUM_ACTIVE_EXTERNAL_PLUGINS = 1, messageManager = True, calls = []\<rparr>"

definition reverb_handle :: ExternalPlugin where
  "reverb_handle =
     \<lparr>pathToPluginFile = ''/plugins/Reverb.vst3'',
      foundPluginDescription = ''Reverb'',
      pluginInstance = Some reverb_instance\<rparr>"

text \<open>An instrument: no input bus at all.\<close>

definition synth_handle :: ExternalPlugin where
  "synth_handle =
     \<lparr>pathToPluginFile = ''/plugins/Synth.vst3'',
      foundPluginDescription = ''Synth'',
      pluginInstance =
        Some \<lparr>getName = ''Synth'', inputBuses = [],
              outputBuses = [\<lparr>isEnabled = True, getNumberOfChannels = 2\<rparr>],
              getParameters = [], nativeState = []\<rparr>\<rparr>"

text \<open>The plugin after \<open>prepare\<close> with one channel.\<close>

definition half_mono_instance :: AudioPluginInstance where
  "half_mono_instance =
     reverb_instance\<lparr>inputBuses := [\<lparr>isEnabled = True, getNumberOfChannels = 1\<rparr>]\<rparr>"

definition mono_instance :: AudioPluginInstance where
  "mono_instance =
     reverb_instance\<lparr>inputBuses := [\<lparr>isEnabled = True, getNumberOfChannels = 1\<rparr>],
                     outputBuses := [\<lparr>isEnabled = True, getNumberOfChannels = 1\<rparr>]\<rparr>"

definition mono_spec :: ProcessSpec where
  "mono_spec = \<lparr>sampleRate = 48000, maximumBlockSize = 512, numChannels = 1\<rparr>"

definition mono_reverb_handle :: ExternalPlugin where
  "mono_reverb_handle =
     reverb_handle\<lparr>pluginInstance :=
       Some (reverb_instance\<lparr>inputBuses := [\<lparr>isEnabled = True, getNumberOfChannels = 1\<rparr>],
                              outputBuses := [\<lparr>isEnabled = True, getNumberOfChannels = 1\<rparr>]\<rparr>)\<rparr>"

text \<open>A plugin with no bus at all.\<close>

definition busless_handle :: ExternalPlugin where
  "busless_handle =
     \<lparr>pathToPluginFile = ''/plugins/Midi.vst3'',
      foundPluginDescription = ''Midi'',
      pluginInstance =
        Some \<lparr>getName = ''Midi'', inputBuses = [], outputBuses = [],
              getParameters = [], nativeState = []\<rparr>\<rparr>"

definition stereo_block :: "int AudioBlock" where
  "stereo_block = \<lparr>channelData = [[1, 2, 3], [4, 5, 6]], getNumSamples = 3\<rparr>"

section \<open>Properties\<close>

lemma getBusCount_applyLayout [simp]:
  "getBusCount (applyLayout inst l) isInput = getBusCount inst isInput"
  by (simp add: getBusCount_def buses_def applyLayout_def)

lemma called_fields [simp]:
  "NUM_ACTIVE_EXTERNAL_PLUGINS (called cs g) = NUM_ACTIVE_EXTERNAL_PLUGINS g"
  "messageManager (called cs g) = messageManager g"
  "calls (called cs g) = calls g @ cs"
  by (simp_all add: called_def)

lemma destructor_count:
  "NUM_ACTIVE_EXTERNAL_PLUGINS (destructor g h) = NUM_ACTIVE_EXTERNAL_PLUGINS g - 1"
  by (simp add: destructor_def Let_def)

lemma trim_reverb:
  "trimCharactersAtEnd ''/plugins/Reverb.vst3/'' ''/'' = ''/plugins/Reverb.vst3''"
  "trimCharactersAtEnd ''/plugins/Missing.vst3'' ''/'' = ''/plugins/Missing.vst3''"
  "trimCharactersAtEnd ''/plugins/Broken.vst3/'' ''/'' = ''/plugins/Broken.vst3''"
  by (simp_all add: trimCharactersAtEnd_def)

lemma example_host_fields:
  "getSeparatorString (example_host :: 's juce) = ''/''"
  "JUCE_LINUX (example_host :: 's juce) = True"
  "uname_machine (example_host :: 's juce) = Some ''x86_64''"
  "File_exists (example_host :: 's juce) =
     (\<lambda>p. p = ''/plugins/Reverb.vst3'' \<or> p = ''/plugins/Broken.vst3'')"
  "File_File (example_host :: 's juce) = (\<lambda>p. p)"
  "File_getChildFile (example_host :: 's juce) = (\<lambda>f c. f @ ''/'' @ c)"
  "scanAndAddFile (example_host :: 's juce) =
     (\<lambda>p. if p = ''/plugins/Reverb.vst3'' then [''Reverb'', ''Reverb (mono)''] else [])"
  "createPluginInstance (example_host :: 's juce) =
     (\<lambda>d rate block.
        if d = ''Reverb'' then (Some reverb_instance, [])
        else (None, ''No compatible plug-in format exists for this plug-in''))"
  "getStateInformation (example_host :: 's juce) = nativeState"
  "setStateInformation (example_host :: 's juce) = (\<lambda>inst m. inst\<lparr>nativeState := m\<rparr>)"
  "instance_reset (example_host :: 's juce) = (\<lambda>inst. inst)"
  by (simp_all add: example_host_def)

subsection \<open>Destruction and the counter\<close>

lemma failing_reinstantiate:
  "reinstantiatePlugin (failing_host :: int juce) running_global reverb_handle =
     (Inl (import_error (''Unable to load plugin /plugins/Reverb.vst3: ''
                          @ ''No compatible plug-in format exists for this plug-in'')),
      \<lparr>NUM_ACTIVE_EXTERNAL_PLUGINS = 0, messageManager = True,
       calls = [Call_getStateInformation, Call_destroyInstance, Call_decrement,
                Call_createPluginInstance ''Reverb'' 44100 8192]\<rparr>,
      reverb_handle\<lparr>pluginInstance := None\<rparr>)"
  by (simp add: reinstantiatePlugin_def failing_host_def example_host_def reverb_handle_def
        running_global_def called_def ExternalLoadSampleRate_def ExternalLoadMaximumBlockSize_def)

text \<open>
  Claim C9. Destroying a handle lowers \<open>NUM_ACTIVE_EXTERNAL_PLUGINS\<close> by exactly
  one whether or not the handle holds an instance. In particular, when
  \<open>reinstantiatePlugin\<close> has thrown, the handle holds no instance and its
  destruction still lowers the counter by one.
\<close>

theorem destructor_decrements:
  "NUM_ACTIVE_EXTERNAL_PLUGINS (destructor g h) = NUM_ACTIVE_EXTERNAL_PLUGINS g - 1
   \<and> (\<forall>e g' h'. reinstantiatePlugin env g h = (Inl e, g', h') \<longrightarrow>
          pluginInstance h' = None
          \<and> NUM_ACTIVE_EXTERNAL_PLUGINS (destructor g' h') = NUM_ACTIVE_EXTERNAL_PLUGINS g' - 1)"
  by (auto simp: destructor_count reinstantiatePlugin_def Let_def
           split: option.splits prod.splits)

theorem destructor_decrements_witness:
  "reinstantiatePlugin (failing_host :: int juce) running_global reverb_handle =
     (Inl (import_error (''Unable to load plugin /plugins/Reverb.vst3: ''
                          @ ''No compatible plug-in format exists for this plug-in'')),
      \<lparr>NUM_ACTIVE_EXTERNAL_PLUGINS = 0, messageManager = True,
       calls = [Call_getStateInformation, Call_destroyInstance, Call_decrement,
                Call_createPluginInstance ''Reverb'' 44100 8192]\<rparr>,
      reverb_handle\<lparr>pluginInstance := None\<rparr>)
   \<and> pluginInstance (reverb_handle\<lparr>pluginInstance := None\<rparr>) = None
   \<and> NUM_ACTIVE_EXTERNAL_PLUGINS
         (destructor
            \<lparr>NUM_ACTIVE_EXTERNAL_PLUGINS = 0, messageManager = True,
             calls = [Call_getStateInformation, Call_destroyInstance, Call_decrement,
                      Call_createPluginInstance ''Reverb'' 44100 8192]\<rparr>
            (reverb_handle\<lparr>pluginInstance := None\<rparr>)) = - 1"
  using destructor_decrements [of running_global reverb_handle "failing_host :: int juce"]
    failing_reinstantiate
  by simp

subsection \<open>Reinstantiation\<close>

text \<open>
  Claim C4, as the code has it. On a handle that holds an instance,
  \<open>reinstantiatePlugin\<close> performs exactly these steps in order: it reads the
  state of the instance, destroys it, lowers the counter, creates an instance
  from the stored description at 44100 Hz and 8192 samples, and then, when the
  creation succeeded, raises the counter again (so that it ends unchanged),
  gives the saved state to the new instance and resets it; the handle then
  holds the new instance. When the creation fails it throws an \<open>import_error\<close>
  whose message ends with the error string of the framework, the counter
  stays lowered and the handle holds no instance.
\<close>

theorem reinstantiatePlugin_steps:
  assumes "pluginInstance h = Some old"
  shows "(\<forall>fresh msg.
            createPluginInstance env (foundPluginDescription h) 44100 8192 = (Some fresh, msg) \<longrightarrow>
            reinstantiatePlugin env g h =
              (Inr (),
               g\<lparr>calls := calls g @
                    [Call_getStateInformation, Call_destroyInstance, Call_decrement,
                     Call_createPluginInstance (foundPluginDescription h) 44100 8192,
                     Call_increment,
                     Call_setStateInformation (getStateInformation env old),
                     Call_reset]\<rparr>,
               h\<lparr>pluginInstance :=
                    Some (instance_reset env
                            (setStateInformation env fresh (getStateInformation env old)))\<rparr>))
       \<and> (\<forall>msg.
            createPluginInstance env (foundPluginDescription h) 44100 8192 = (None, msg) \<longrightarrow>
            reinstantiatePlugin env g h =
              (Inl (import_error (''Unable to load plugin '' @ pathToPluginFile h @ '': '' @ msg)),
               g\<lparr>NUM_ACTIVE_EXTERNAL_PLUGINS := NUM_ACTIVE_EXTERNAL_PLUGINS g - 1,
                  calls := calls g @
                    [Call_getStateInformation, Call_destroyInstance, Call_decrement,
                     Call_createPluginInstance (foundPluginDescription h) 44100 8192]\<rparr>,
               h\<lparr>pluginInstance := None\<rparr>))"
  using assms
  by (simp add: reinstantiatePlugin_def called_def ExternalLoadSampleRate_def
        ExternalLoadMaximumBlockSize_def)

theorem reinstantiatePlugin_steps_witness:
  "pluginInstance reverb_handle = Some reverb_instance
   \<and> createPluginInstance (example_host :: int juce) (foundPluginDescription reverb_handle)
        44100 8192 = (Some reverb_instance, [])
   \<and> reinstantiatePlugin (example_host :: int juce) running_global reverb_handle =
       (Inr (),
        \<lparr>NUM_ACTIVE_EXTERNAL_PLUGINS = 1, messageManager = True,
         calls = [Call_getStateInformation, Call_destroyInstance, Call_decrement,
                  Call_createPluginInstance ''Reverb'' 44100 8192, Call_increment,
                  Call_setStateInformation [7, 7], Call_reset]\<rparr>,
        reverb_handle)
   \<and> createPluginInstance (failing_host :: int juce) (foundPluginDescription reverb_handle)
        44100 8192 = (None, ''No compatible plug-in format exists for this plug-in'')
   \<and> reinstantiatePlugin (failing_host :: int juce) running_global reverb_handle =
       (Inl (import_error (''Unable to load plugin /plugins/Reverb.vst3: ''
                            @ ''No compatible plug-in format exists for this plug-in'')),
        \<lparr>NUM_ACTIVE_EXTERNAL_PLUGINS = 0, messageManager = True,
         calls = [Call_getStateInformation, Call_destroyInstance, Call_decrement,
                  Call_createPluginInstance ''Reverb'' 44100 8192]\<rparr>,
        reverb_handle\<lparr>pluginInstance := None\<rparr>)"
proof -
  have h: "pluginInstance reverb_handle = Some reverb_instance"
    by (simp add: reverb_handle_def)
  have ok: "createPluginInstance (example_host :: int juce) (foundPluginDescription reverb_handle)
              44100 8192 = (Some reverb_instance, [])"
    by (simp add: example_host_fields reverb_handle_def)
  have bad: "createPluginInstance (failing_host :: int juce) (foundPluginDescription reverb_handle)
               44100 8192 = (None, ''No compatible plug-in format exists for this plug-in'')"
    by (simp add: failing_host_def)
  have st: "getStateInformation (failing_host :: int juce) = nativeState"
    by (simp add: failing_host_def example_host_def)
  show ?thesis
    using h ok bad
      reinstantiatePlugin_steps [OF h, of "example_host :: int juce" running_global]
      reinstantiatePlugin_steps [OF h, of "failing_host :: int juce" running_global]
    by (simp add: example_host_fields st running_global_def reverb_handle_def
          reverb_instance_def)
qed

text \<open>
  The claim as stated, with its six steps and no more, fails: on a successful
  reinstantiation there is a seventh, the counter raised again between the
  creation and the restoring of the state, and the counter ends where it
  started.
\<close>

theorem reinstantiatePlugin_raises_counter:
  "calls (fst (snd (reinstantiatePlugin (example_host :: int juce) running_global reverb_handle)))
     = [Call_getStateInformation, Call_destroyInstance, Call_decrement,
        Call_createPluginInstance ''Reverb'' 44100 8192, Call_increment,
        Call_setStateInformation [7, 7], Call_reset]
   \<and> calls (fst (snd (reinstantiatePlugin (example_host :: int juce) running_global
                          reverb_handle)))
       \<noteq> [Call_getStateInformation, Call_destroyInstance, Call_decrement,
           Call_createPluginInstance ''Reverb'' 44100 8192,
           Call_setStateInformation [7, 7], Call_reset]
   \<and> NUM_ACTIVE_EXTERNAL_PLUGINS
         (fst (snd (reinstantiatePlugin (example_host :: int juce) running_global reverb_handle)))
       = NUM_ACTIVE_EXTERNAL_PLUGINS running_global"
  by (simp add: reinstantiatePlugin_def example_host_fields reverb_handle_def
        reverb_instance_def running_global_def called_def
        ExternalLoadSampleRate_def ExternalLoadMaximumBlockSize_def)

subsection \<open>Construction\<close>

text \<open>
  Claim C5, as the code has it. The constructor trims the trailing separators
  of the path and tests the existence of what is left. When that trimmed path
  does not exist, construction throws an \<open>import_error\<close> saying that the plugin
  file was not found, and the only calls made are the creation of the message
  manager, the registration of the formats and the existence test: no scan.
\<close>

theorem ctor_missing_file:
  assumes "\<not> File_exists env (trimCharactersAtEnd path (getSeparatorString env))"
  shows "ExternalPlugin_ctor env g path =
           (Inl (import_error (''Unable to load plugin '' @ path @ '': plugin file not found.'')),
            g\<lparr>messageManager := True,
               calls := calls g @
                 [MessageManager_getInstance, addDefaultFormats,
                  Call_exists (trimCharactersAtEnd path (getSeparatorString env))]\<rparr>)"
  using assms
  by (simp add: ExternalPlugin_ctor_def Let_def called_def not_found_message_def)

theorem ctor_missing_file_witness:
  "\<not> File_exists (example_host :: int juce)
        (trimCharactersAtEnd ''/plugins/Missing.vst3'' (getSeparatorString (example_host :: int juce)))
   \<and> ExternalPlugin_ctor (example_host :: int juce) initial_global ''/plugins/Missing.vst3'' =
       (Inl (import_error ''Unable to load plugin /plugins/Missing.vst3: plugin file not found.''),
        \<lparr>NUM_ACTIVE_EXTERNAL_PLUGINS = 0, messageManager = True,
         calls = [MessageManager_getInstance, addDefaultFormats,
                  Call_exists ''/plugins/Missing.vst3'']\<rparr>)"
proof -
  have h: "\<not> File_exists (example_host :: int juce)
        (trimCharactersAtEnd ''/plugins/Missing.vst3'' (getSeparatorString (example_host :: int juce)))"
    by (simp add: example_host_fields trim_reverb)
  show ?thesis
    using h ctor_missing_file [OF h, of initial_global]
    by (simp add: example_host_fields trim_reverb initial_global_def)
qed

lemma ctor_reverb:
  "ExternalPlugin_ctor (example_host :: int juce) initial_global ''/plugins/Reverb.vst3/'' =
     (Inr \<lparr>pathToPluginFile = ''/plugins/Reverb.vst3/'',
           foundPluginDescription = ''Reverb'',
           pluginInstance = Some (reverb_instance\<lparr>nativeState := []\<rparr>)\<rparr>,
      \<lparr>NUM_ACTIVE_EXTERNAL_PLUGINS = 1, messageManager = True,
       calls = [MessageManager_getInstance, addDefaultFormats,
                Call_exists ''/plugins/Reverb.vst3'',
                Call_scanAndAddFile ''/plugins/Reverb.vst3'',
                Call_createPluginInstance ''Reverb'' 44100 8192,
                Call_increment, Call_setStateInformation [], Call_reset]\<rparr>)"
  by (simp add: ExternalPlugin_ctor_def Let_def example_host_fields trim_reverb
        reinstantiatePlugin_def called_def initial_global_def
        ExternalLoadSampleRate_def ExternalLoadMaximumBlockSize_def)

text \<open>
  The claim as stated, for every path that does not exist, fails on a path
  that ends with a separator and names a regular file: the path as given does
  not exist, the trimmed path does, and construction scans it and returns a
  handle.
\<close>

theorem ctor_trailing_separator:
  "\<not> File_exists (example_host :: int juce) ''/plugins/Reverb.vst3/''
   \<and> ExternalPlugin_ctor (example_host :: int juce) initial_global ''/plugins/Reverb.vst3/'' =
       (Inr \<lparr>pathToPluginFile = ''/plugins/Reverb.vst3/'',
             foundPluginDescription = ''Reverb'',
             pluginInstance = Some (reverb_instance\<lparr>nativeState := []\<rparr>)\<rparr>,
        \<lparr>NUM_ACTIVE_EXTERNAL_PLUGINS = 1, messageManager = True,
         calls = [MessageManager_getInstance, addDefaultFormats,
                  Call_exists ''/plugins/Reverb.vst3'',
                  Call_scanAndAddFile ''/plugins/Reverb.vst3'',
                  Call_createPluginInstance ''Reverb'' 44100 8192,
                  Call_increment, Call_setStateInformation [], Call_reset]\<rparr>)"
  using ctor_reverb by (simp add: example_host_fields)

text \<open>
  Claim C6. When the path exists and its scan finds no description,
  construction throws an \<open>import_error\<close>; on Linux the message carries the
  \<open>ldd\<close> hint on the file \<open>Contents/<machine>-linux/<bundle name>.so\<close> below the
  bundle.
\<close>

theorem ctor_empty_scan:
  assumes "File_exists env (trimCharactersAtEnd path (getSeparatorString env))"
    and "scanAndAddFile env (trimCharactersAtEnd path (getSeparatorString env)) = []"
  shows "fst (ExternalPlugin_ctor env g path) =
           Inl (import_error
             (if JUCE_LINUX env
              then ''Unable to load plugin '' @ path
                   @ '': unsupported plugin format or load failure. Plugin files or shared library dependencies may be missing. (Try running ''
                   @ [CHR 0x60] @ ''ldd '' @ [CHR 0x22]
                   @ File_getChildFile env
                       (File_getChildFile env
                          (File_getChildFile env
                             (File_File env (trimCharactersAtEnd path (getSeparatorString env)))
                             ''Contents'')
                          ((case uname_machine env of None \<Rightarrow> [] | Some m \<Rightarrow> m) @ ''-linux''))
                       (File_getFileNameWithoutExtension env
                          (File_File env (trimCharactersAtEnd path (getSeparatorString env)))
                        @ ''.so'')
                   @ [CHR 0x22] @ [CHR 0x60]
                   @ '' to see which dependencies might be missing.).''
              else ''Unable to load plugin '' @ path
                   @ '': unsupported plugin format or load failure.''))"
  using assms
  by (simp add: ExternalPlugin_ctor_def Let_def load_failure_message_def
        pathToSharedObjectFile_def getFullPathName_def backtick_def double_quote_def)

theorem ctor_empty_scan_witness:
  "File_exists (example_host :: int juce)
     (trimCharactersAtEnd ''/plugins/Broken.vst3/'' (getSeparatorString (example_host :: int juce)))
   \<and> scanAndAddFile (example_host :: int juce)
        (trimCharactersAtEnd ''/plugins/Broken.vst3/'' (getSeparatorString (example_host :: int juce))) = []
   \<and> fst (ExternalPlugin_ctor (example_host :: int juce) initial_global ''/plugins/Broken.vst3/'') =
       Inl (import_error
         (''Unable to load plugin /plugins/Broken.vst3/: unsupported plugin format or load failure. ''
          @ ''Plugin files or shared library dependencies may be missing. (Try running ''
          @ [CHR 0x60] @ ''ldd '' @ [CHR 0x22]
          @ ''/plugins/Broken.vst3/Contents/x86_64-linux/Broken.so''
          @ [CHR 0x22] @ [CHR 0x60] @ '' to see which dependencies might be missing.).''))"
proof -
  have h1: "File_exists (example_host :: int juce)
     (trimCharactersAtEnd ''/plugins/Broken.vst3/'' (getSeparatorString (example_host :: int juce)))"
    by (simp add: example_host_fields trim_reverb)
  have h2: "scanAndAddFile (example_host :: int juce)
        (trimCharactersAtEnd ''/plugins/Broken.vst3/'' (getSeparatorString (example_host :: int juce))) = []"
    by (simp add: example_host_fields trim_reverb)
  have name: "File_getFileNameWithoutExtension (example_host :: int juce) ''/plugins/Broken.vst3''
                = ''Broken''"
    by (simp add: example_host_def)
  show ?thesis
    using h1 h2 ctor_empty_scan [OF h1 h2, of initial_global]
    by (simp add: example_host_fields trim_reverb name)
qed

text \<open>
  Claim C7. When construction returns a handle, the scan found at least one
  description, the handle keeps the first one, and its instance is the one
  created from that description at 44100 Hz and 8192 samples (given an empty
  state and reset); there is exactly one creation among the calls.
\<close>

theorem ctor_success_first_description:
  assumes "ExternalPlugin_ctor env g path = (Inr h, g')"
  shows "\<exists>d rest fresh msg.
           scanAndAddFile env (trimCharactersAtEnd path (getSeparatorString env)) = d # rest
           \<and> foundPluginDescription h = d
           \<and> createPluginInstance env d 44100 8192 = (Some fresh, msg)
           \<and> pluginInstance h = Some (instance_reset env (setStateInformation env fresh []))
           \<and> calls g' = calls g @
                [MessageManager_getInstance, addDefaultFormats,
                 Call_exists (trimCharactersAtEnd path (getSeparatorString env)),
                 Call_scanAndAddFile (trimCharactersAtEnd path (getSeparatorString env)),
                 Call_createPluginInstance d 44100 8192,
                 Call_increment, Call_setStateInformation [], Call_reset]"
  using assms
  by (auto simp: ExternalPlugin_ctor_def Let_def called_def reinstantiatePlugin_def
        ExternalLoadSampleRate_def ExternalLoadMaximumBlockSize_def neq_Nil_conv
        split: if_splits prod.splits option.splits sum.splits)

theorem ctor_success_first_description_witness:
  "ExternalPlugin_ctor (example_host :: int juce) initial_global ''/plugins/Reverb.vst3/'' =
     (Inr \<lparr>pathToPluginFile = ''/plugins/Reverb.vst3/'',
           foundPluginDescription = ''Reverb'',
           pluginInstance = Some (reverb_instance\<lparr>nativeState := []\<rparr>)\<rparr>,
      \<lparr>NUM_ACTIVE_EXTERNAL_PLUGINS = 1, messageManager = True,
       calls = [MessageManager_getInstance, addDefaultFormats,
                Call_exists ''/plugins/Reverb.vst3'',
                Call_scanAndAddFile ''/plugins/Reverb.vst3'',
                Call_createPluginInstance ''Reverb'' 44100 8192,
                Call_increment, Call_setStateInformation [], Call_reset]\<rparr>)
   \<and> scanAndAddFile (example_host :: int juce) ''/plugins/Reverb.vst3''
       = [''Reverb'', ''Reverb (mono)'']
   \<and> (\<exists>d rest fresh msg.
         scanAndAddFile (example_host :: int juce) ''/plugins/Reverb.vst3'' = d # rest
         \<and> d = ''Reverb''
         \<and> createPluginInstance (example_host :: int juce) d 44100 8192 = (Some fresh, msg))"
  using ctor_reverb ctor_success_first_description [OF ctor_reverb]
  by (simp add: example_host_fields trim_reverb)

subsection \<open>Sequences of constructions and destructions\<close>

lemma ctor_failure_global:
  "ExternalPlugin_ctor env g path = (Inl e, g') \<Longrightarrow>
     NUM_ACTIVE_EXTERNAL_PLUGINS g' = NUM_ACTIVE_EXTERNAL_PLUGINS g \<and> messageManager g'"
  by (auto simp: ExternalPlugin_ctor_def Let_def reinstantiatePlugin_def
        split: if_splits prod.splits option.splits sum.splits)

lemma ctor_success_global:
  "ExternalPlugin_ctor env g path = (Inr h, g') \<Longrightarrow>
     NUM_ACTIVE_EXTERNAL_PLUGINS g' = NUM_ACTIVE_EXTERNAL_PLUGINS g + 1 \<and> messageManager g'"
  by (auto simp: ExternalPlugin_ctor_def Let_def reinstantiatePlugin_def
        split: if_splits prod.splits option.splits sum.splits)

lemma ctor_outcome_independent:
  "isl (fst (ExternalPlugin_ctor env g path)) = isl (fst (ExternalPlugin_ctor env g0 path))"
  by (auto simp: ExternalPlugin_ctor_def Let_def reinstantiatePlugin_def
        split: if_splits prod.splits option.splits sum.splits)

lemma destructor_messageManager:
  "messageManager (destructor g h) =
     (messageManager g \<and> NUM_ACTIVE_EXTERNAL_PLUGINS g \<noteq> 1)"
  by (simp add: destructor_def Let_def)

lemma step_invariant:
  assumes "NUM_ACTIVE_EXTERNAL_PLUGINS (glob s) = int (length (handles s))"
    and "0 < NUM_ACTIVE_EXTERNAL_PLUGINS (glob s) \<longrightarrow> messageManager (glob s)"
  shows "NUM_ACTIVE_EXTERNAL_PLUGINS (glob (step s e)) = int (length (handles (step s e)))
         \<and> (0 < NUM_ACTIVE_EXTERNAL_PLUGINS (glob (step s e)) \<longrightarrow> messageManager (glob (step s e)))"
proof (cases e)
  case (Construct env path)
  show ?thesis
  proof (cases "ExternalPlugin_ctor env (glob s) path")
    case (Pair r g')
    show ?thesis
    proof (cases r)
      case (Inl err)
      with Pair ctor_failure_global [of env "glob s" path err g'] assms Construct
      show ?thesis by simp
    next
      case (Inr h)
      with Pair ctor_success_global [of env "glob s" path h g'] assms Construct
      show ?thesis by simp
    qed
  qed
next
  case (Destroy k)
  show ?thesis
  proof (cases "k < length (handles s)")
    case True
    with assms Destroy show ?thesis
      by (auto simp: destructor_count destructor_messageManager)
  next
    case False
    with assms Destroy show ?thesis by simp
  qed
qed

lemma step_iff:
  assumes "NUM_ACTIVE_EXTERNAL_PLUGINS (glob s) = int (length (handles s))"
    and "messageManager (glob s) \<longleftrightarrow> 0 < NUM_ACTIVE_EXTERNAL_PLUGINS (glob s)"
    and "succeeds e"
  shows "messageManager (glob (step s e)) \<longleftrightarrow> 0 < NUM_ACTIVE_EXTERNAL_PLUGINS (glob (step s e))"
proof (cases e)
  case (Construct env path)
  show ?thesis
  proof (cases "ExternalPlugin_ctor env (glob s) path")
    case (Pair r g')
    show ?thesis
    proof (cases r)
      case (Inl err)
      with Pair have "isl (fst (ExternalPlugin_ctor env (glob s) path))" by simp
      then have "isl (fst (ExternalPlugin_ctor env initial_global path))"
        using ctor_outcome_independent [of env "glob s" path initial_global] by simp
      with assms(3) Construct show ?thesis by simp
    next
      case (Inr h)
      with Pair ctor_success_global [of env "glob s" path h g'] assms Construct
      show ?thesis by simp
    qed
  qed
next
  case (Destroy k)
  show ?thesis
  proof (cases "k < length (handles s)")
    case True
    with assms Destroy show ?thesis
      by (auto simp: destructor_count destructor_messageManager)
  next
    case False
    with assms Destroy show ?thesis by simp
  qed
qed

lemma run_invariant:
  assumes "NUM_ACTIVE_EXTERNAL_PLUGINS (glob s) = int (length (handles s))"
    and "0 < NUM_ACTIVE_EXTERNAL_PLUGINS (glob s) \<longrightarrow> messageManager (glob s)"
  shows "NUM_ACTIVE_EXTERNAL_PLUGINS (glob (run s evs)) = int (length (handles (run s evs)))
         \<and> (0 < NUM_ACTIVE_EXTERNAL_PLUGINS (glob (run s evs))
              \<longrightarrow> messageManager (glob (run s evs)))"
  using assms
proof (induction evs arbitrary: s)
  case Nil
  then show ?case by (simp add: run_def)
next
  case (Cons e evs)
  from step_invariant [OF Cons.prems, of e]
  have "NUM_ACTIVE_EXTERNAL_PLUGINS (glob (run (step s e) evs))
          = int (length (handles (run (step s e) evs)))
        \<and> (0 < NUM_ACTIVE_EXTERNAL_PLUGINS (glob (run (step s e) evs))
              \<longrightarrow> messageManager (glob (run (step s e) evs)))"
    by (intro Cons.IH) simp_all
  then show ?case by (simp add: run_def)
qed

lemma run_iff:
  assumes "NUM_ACTIVE_EXTERNAL_PLUGINS (glob s) = int (length (handles s))"
    and "messageManager (glob s) \<longleftrightarrow> 0 < NUM_ACTIVE_EXTERNAL_PLUGINS (glob s)"
    and "\<forall>e \<in> set evs. succeeds e"
  shows "messageManager (glob (run s evs)) \<longleftrightarrow> 0 < NUM_ACTIVE_EXTERNAL_PLUGINS (glob (run s evs))"
  using assms
proof (induction evs arbitrary: s)
  case Nil
  then show ?case by (simp add: run_def)
next
  case (Cons e evs)
  have inv: "NUM_ACTIVE_EXTERNAL_PLUGINS (glob (step s e)) = int (length (handles (step s e)))"
    using step_invariant [OF Cons.prems(1), of e] Cons.prems(2) by simp
  have iff: "messageManager (glob (step s e))
               \<longleftrightarrow> 0 < NUM_ACTIVE_EXTERNAL_PLUGINS (glob (step s e))"
    using step_iff [OF Cons.prems(1,2), of e] Cons.prems(3) by simp
  have "messageManager (glob (run (step s e) evs))
          \<longleftrightarrow> 0 < NUM_ACTIVE_EXTERNAL_PLUGINS (glob (run (step s e) evs))"
    using Cons.prems(3) by (intro Cons.IH [OF inv iff]) simp
  then show ?case by (simp add: run_def)
qed

text \<open>
  Claim C1, as the code has it. The constructor creates the message manager
  before it tests the file, and a construction that throws does not delete
  it, so the message manager may exist while the counter is zero. What holds
  after every sequence of constructions and destructions from the initial
  state: the counter is the number of handles that exist, hence never
  negative; whenever the counter is greater than zero the message manager
  exists; and when no construction of the sequence throws, the message
  manager exists if and only if the counter is greater than zero.
\<close>

theorem counter_and_message_manager:
  "0 \<le> NUM_ACTIVE_EXTERNAL_PLUGINS (glob (run initial_system evs))
   \<and> NUM_ACTIVE_EXTERNAL_PLUGINS (glob (run initial_system evs))
       = int (length (handles (run initial_system evs)))
   \<and> (0 < NUM_ACTIVE_EXTERNAL_PLUGINS (glob (run initial_system evs))
        \<longrightarrow> messageManager (glob (run initial_system evs)))
   \<and> ((\<forall>e \<in> set evs. succeeds e) \<longrightarrow>
        (messageManager (glob (run initial_system evs))
           \<longleftrightarrow> 0 < NUM_ACTIVE_EXTERNAL_PLUGINS (glob (run initial_system evs))))"
proof -
  have a: "NUM_ACTIVE_EXTERNAL_PLUGINS (glob initial_system) = int (length (handles initial_system))"
    by (simp add: initial_system_def initial_global_def)
  have b: "0 < NUM_ACTIVE_EXTERNAL_PLUGINS (glob initial_system)
             \<longrightarrow> messageManager (glob initial_system)"
    by (simp add: initial_system_def initial_global_def)
  have c: "messageManager (glob initial_system)
             \<longleftrightarrow> 0 < NUM_ACTIVE_EXTERNAL_PLUGINS (glob initial_system)"
    by (simp add: initial_system_def initial_global_def)
  from run_invariant [OF a b, of evs] run_iff [OF a c, of evs]
  show ?thesis by auto
qed

lemma run_construct_reverb:
  "run initial_system [Construct (example_host :: int juce) ''/plugins/Reverb.vst3/''] =
     \<lparr>glob =
        \<lparr>NUM_ACTIVE_EXTERNAL_PLUGINS = 1, messageManager = True,
         calls = [MessageManager_getInstance, addDefaultFormats,
                  Call_exists ''/plugins/Reverb.vst3'',
                  Call_scanAndAddFile ''/plugins/Reverb.vst3'',
                  Call_createPluginInstance ''Reverb'' 44100 8192,
                  Call_increment, Call_setStateInformation [], Call_reset]\<rparr>,
      handles = [\<lparr>pathToPluginFile = ''/plugins/Reverb.vst3/'',
                  foundPluginDescription = ''Reverb'',
                  pluginInstance = Some (reverb_instance\<lparr>nativeState := []\<rparr>)\<rparr>]\<rparr>"
  by (simp add: run_def initial_system_def ctor_reverb)

theorem counter_and_message_manager_witness:
  "succeeds (Construct (example_host :: int juce) ''/plugins/Reverb.vst3/'')
   \<and> 0 < NUM_ACTIVE_EXTERNAL_PLUGINS
           (glob (run initial_system [Construct (example_host :: int juce) ''/plugins/Reverb.vst3/'']))
   \<and> messageManager
        (glob (run initial_system [Construct (example_host :: int juce) ''/plugins/Reverb.vst3/'']))"
  using counter_and_message_manager
          [of "[Construct (example_host :: int juce) ''/plugins/Reverb.vst3/'']"]
  by (simp add: run_construct_reverb ctor_reverb)

text \<open>
  The claim as stated fails: after one construction on a path that does not
  exist, the message manager exists and the counter is zero.
\<close>

theorem failed_construction_keeps_message_manager:
  "\<not> (messageManager
        (glob (run initial_system [Construct (example_host :: int juce) ''/plugins/Missing.vst3'']))
       \<longleftrightarrow> 0 < NUM_ACTIVE_EXTERNAL_PLUGINS
                 (glob (run initial_system
                          [Construct (example_host :: int juce) ''/plugins/Missing.vst3''])))"
  by (simp add: run_def initial_system_def initial_global_def ExternalPlugin_ctor_def Let_def
        example_host_fields trim_reverb)

subsection \<open>Channel negotiation\<close>

lemma applyLayout_keeps [simp]:
  "getName (applyLayout inst l) = getName inst"
  "length (inputBuses (applyLayout inst l)) = length (inputBuses inst)"
  "length (outputBuses (applyLayout inst l)) = length (outputBuses inst)"
  by (simp_all add: applyLayout_def)

lemma disableBusesFrom_keeps [simp]:
  "getName (disableBusesFrom env isInput i inst) = getName inst"
  "length (inputBuses (disableBusesFrom env isInput i inst)) = length (inputBuses inst)"
  "length (outputBuses (disableBusesFrom env isInput i inst)) = length (outputBuses inst)"
proof (induction env isInput i inst rule: disableBusesFrom.induct)
  case (1 env isInput i inst)
  {
    case 1
    show ?case
      using "1.IH"(1) by (simp add: disableBusesFrom.simps [of env isInput i inst])
  next
    case 2
    show ?case
      using "1.IH"(2) by (simp add: disableBusesFrom.simps [of env isInput i inst])
  next
    case 3
    show ?case
      using "1.IH"(3) by (simp add: disableBusesFrom.simps [of env isInput i inst])
  }
qed

lemma applyLayout_empty [simp]:
  "inputBuses (applyLayout inst l) = [] \<longleftrightarrow> inputBuses inst = []"
  "outputBuses (applyLayout inst l) = [] \<longleftrightarrow> outputBuses inst = []"
  by (simp_all add: applyLayout_def)

lemma disableBusesFrom_empty [simp]:
  "inputBuses (disableBusesFrom env isInput i inst) = [] \<longleftrightarrow> inputBuses inst = []"
  "outputBuses (disableBusesFrom env isInput i inst) = [] \<longleftrightarrow> outputBuses inst = []"
  using disableBusesFrom_keeps(2,3) [of env isInput i inst] length_0_conv
  by metis+

lemma getBus_main:
  "getBus inst True 0 = None \<longleftrightarrow> inputBuses inst = []"
  "getBus inst False 0 = None \<longleftrightarrow> outputBuses inst = []"
  by (simp_all add: getBus_def getBusCount_def buses_def)

text \<open>
  Claim C3, as the code has it. On a handle whose instance has a main output
  bus or has no main input bus, \<open>setNumChannels\<close> has three outcomes. It
  returns normally, and then the main input bus and the main output bus both
  have exactly \<open>n\<close> channels. Or the instance has no main input bus, and it
  throws an \<open>invalid_argument\<close> that names the plugin only. Or it throws an
  \<open>invalid_argument\<close> that names the plugin, \<open>n\<close> and the channel counts the two
  main buses now have, one of which differs from \<open>n\<close>. (The one case left out
  is an instance with a main input bus and no output bus at all, where the
  source calls through the null \<open>mainOutputBus\<close>; nothing is said about it
  here.)
\<close>

theorem setNumChannels_outcomes:
  assumes "pluginInstance h = Some inst"
    and "outputBuses inst \<noteq> [] \<or> inputBuses inst = []"
  shows "\<exists>inst'. pluginInstance (snd (setNumChannels env h n)) = Some inst' \<and>
     (case fst (setNumChannels env h n) of
        Inr u \<Rightarrow>
          getBus inst' True 0 \<noteq> None \<and> getBus inst' False 0 \<noteq> None
          \<and> getChannelCountOfBus inst' True 0 = n \<and> getChannelCountOfBus inst' False 0 = n
      | Inl e \<Rightarrow>
          (inputBuses inst = []
           \<and> e = invalid_argument
                 (''Plugin '' @ [CHR 0x27] @ getName inst @ [CHR 0x27]
                  @ '' does not accept audio input. It may be an instrument plug-in and not an audio effect processor.''))
          \<or> (inputBuses inst \<noteq> []
              \<and> (getChannelCountOfBus inst' True 0 \<noteq> n \<or> getChannelCountOfBus inst' False 0 \<noteq> n)
              \<and> e = invalid_argument
                    (''Plugin '' @ [CHR 0x27] @ getName inst @ [CHR 0x27]
                     @ '' does not support '' @ to_string n
                     @ ''-channel input and output. (Main bus currently expects ''
                     @ to_string (getChannelCountOfBus inst' True 0) @ '' input channels and ''
                     @ to_string (getChannelCountOfBus inst' False 0) @ '' output channels.)'')))"
proof (cases "inputBuses inst = []")
  case True
  with assms(1) show ?thesis
    by (simp add: setNumChannels_def Let_def getBus_main no_input_message_def apostrophe_def)
next
  case False
  with assms(2) have "outputBuses inst \<noteq> []" by simp
  with assms(1) False show ?thesis
    by (simp add: setNumChannels_def Let_def getBus_main no_input_message_def
          unsupported_message_def apostrophe_def)
qed

lemma example_host_buses:
  "disableNonMainBuses (example_host :: 's juce) =
     (\<lambda>inst dir k. if k = 0 then buses inst dir ! k
                   else \<lparr>isEnabled = False, getNumberOfChannels = 0\<rparr>)"
  "Bus_enable (example_host :: 's juce) =
     (\<lambda>inst isInput i on. change_bus inst isInput i (\<lambda>b. b\<lparr>isEnabled := on\<rparr>))"
  "Bus_setNumberOfChannels (example_host :: 's juce) =
     (\<lambda>inst isInput i n.
        change_bus inst isInput i
          (\<lambda>b. if n = 1 \<or> n = 2 then b\<lparr>getNumberOfChannels := n\<rparr> else b))"
  "setRateAndBufferSizeDetails (example_host :: 's juce) = (\<lambda>inst rate block. inst)"
  "prepareToPlay (example_host :: 's juce) = (\<lambda>inst rate block. inst)"
  "setNonRealtime (example_host :: 's juce) = (\<lambda>inst on. inst)"
  by (simp_all add: example_host_def)

lemma to_string_digits:
  "to_string 1 = ''1''" "to_string 2 = ''2''" "to_string 3 = ''3''"
  "string_of_nat 1 = ''1''" "string_of_nat 2 = ''2''"
  by (simp_all add: to_string_def string_of_nat.simps digit_char_def)

lemma reverb_disableNonMainBuses:
  "applyLayout reverb_instance (disableNonMainBuses (example_host :: 's juce) reverb_instance)
     = reverb_instance"
  by (simp add: applyLayout_def example_host_buses buses_def reverb_instance_def)

lemma reverb_disableBusesFrom:
  "disableBusesFrom (example_host :: 's juce) isInput (Suc 0) reverb_instance = reverb_instance"
  by (subst disableBusesFrom.simps) (simp add: getBusCount_def buses_def reverb_instance_def)

lemma reverb_set_3:
  "applyLayout reverb_instance
     (Bus_setNumberOfChannels (example_host :: 's juce) reverb_instance isInput 0 3)
     = reverb_instance"
  by (simp add: applyLayout_def example_host_buses buses_def change_bus_def reverb_instance_def)

lemma reverb_set_1_in:
  "applyLayout reverb_instance
     (Bus_setNumberOfChannels (example_host :: 's juce) reverb_instance True 0 1)
     = half_mono_instance"
  by (simp add: applyLayout_def example_host_buses buses_def change_bus_def reverb_instance_def
        half_mono_instance_def)

lemma reverb_set_1_out:
  "applyLayout half_mono_instance
     (Bus_setNumberOfChannels (example_host :: 's juce) half_mono_instance False 0 1)
     = mono_instance"
  by (simp add: applyLayout_def example_host_buses buses_def change_bus_def reverb_instance_def
        half_mono_instance_def mono_instance_def)

lemma reverb_buses:
  "getBus reverb_instance True 0 = Some \<lparr>isEnabled = True, getNumberOfChannels = 2\<rparr>"
  "getBus reverb_instance False 0 = Some \<lparr>isEnabled = True, getNumberOfChannels = 2\<rparr>"
  "getChannelCountOfBus reverb_instance True 0 = 2"
  "getChannelCountOfBus reverb_instance False 0 = 2"
  "getChannelCountOfBus mono_instance True 0 = 1"
  "getChannelCountOfBus mono_instance False 0 = 1"
  "getName reverb_instance = ''Reverb''"
  by (simp_all add: getChannelCountOfBus_def getBus_def getBusCount_def buses_def
        reverb_instance_def mono_instance_def)

lemma setNumChannels_reverb_3:
  "setNumChannels (example_host :: int juce) reverb_handle 3 =
     (Inl (invalid_argument
             (''Plugin '' @ [CHR 0x27] @ ''Reverb'' @ [CHR 0x27]
              @ '' does not support 3-channel input and output. ''
              @ ''(Main bus currently expects 2 input channels and 2 output channels.)'')),
      reverb_handle)"
proof -
  have "pluginInstance reverb_handle = Some reverb_instance"
    by (simp add: reverb_handle_def)
  moreover have "reverb_handle\<lparr>pluginInstance := Some reverb_instance\<rparr> = reverb_handle"
    by (simp add: reverb_handle_def)
  ultimately show ?thesis
    by (simp add: setNumChannels_def reverb_disableNonMainBuses reverb_disableBusesFrom
          reverb_set_3 reverb_buses unsupported_message_def apostrophe_def to_string_digits)
qed

lemma setNumChannels_reverb_1:
  "setNumChannels (example_host :: int juce) reverb_handle 1 = (Inr (), mono_reverb_handle)"
proof -
  have "pluginInstance reverb_handle = Some reverb_instance"
    by (simp add: reverb_handle_def)
  moreover have "reverb_handle\<lparr>pluginInstance := Some mono_instance\<rparr> = mono_reverb_handle"
    by (simp add: mono_reverb_handle_def mono_instance_def)
  ultimately show ?thesis
    by (simp add: setNumChannels_def reverb_disableNonMainBuses reverb_disableBusesFrom
          reverb_set_1_in reverb_set_1_out reverb_buses)
qed

lemma setNumChannels_synth_2:
  "fst (setNumChannels (example_host :: int juce) synth_handle 2) =
     Inl (invalid_argument
            (''Plugin '' @ [CHR 0x27] @ ''Synth'' @ [CHR 0x27]
             @ '' does not accept audio input. It may be an instrument plug-in ''
             @ ''and not an audio effect processor.''))"
  by (simp add: setNumChannels_def Let_def synth_handle_def example_host_buses
        applyLayout_def getBus_def getBusCount_def buses_def no_input_message_def
        apostrophe_def)

lemma setNumChannels_busless_2:
  "fst (setNumChannels (example_host :: int juce) busless_handle 2) =
     Inl (invalid_argument
            (''Plugin '' @ [CHR 0x27] @ ''Midi'' @ [CHR 0x27]
             @ '' does not accept audio input. It may be an instrument plug-in ''
             @ ''and not an audio effect processor.''))"
  by (simp add: setNumChannels_def Let_def busless_handle_def example_host_buses
        applyLayout_def getBus_def getBusCount_def buses_def no_input_message_def
        apostrophe_def)

theorem setNumChannels_outcomes_witness:
  "pluginInstance reverb_handle = Some reverb_instance
   \<and> outputBuses reverb_instance \<noteq> []
   \<and> setNumChannels (example_host :: int juce) reverb_handle 3 =
       (Inl (invalid_argument
               (''Plugin '' @ [CHR 0x27] @ ''Reverb'' @ [CHR 0x27]
                @ '' does not support 3-channel input and output. ''
                @ ''(Main bus currently expects 2 input channels and 2 output channels.)'')),
        reverb_handle)
   \<and> getChannelCountOfBus reverb_instance True 0 \<noteq> 3
   \<and> setNumChannels (example_host :: int juce) reverb_handle 1 = (Inr (), mono_reverb_handle)
   \<and> map_option inputBuses (pluginInstance busless_handle) = Some []
   \<and> map_option outputBuses (pluginInstance busless_handle) = Some []
   \<and> fst (setNumChannels (example_host :: int juce) busless_handle 2) =
       Inl (invalid_argument
              (''Plugin '' @ [CHR 0x27] @ ''Midi'' @ [CHR 0x27]
               @ '' does not accept audio input. It may be an instrument plug-in ''
               @ ''and not an audio effect processor.''))"
proof -
  have h1: "pluginInstance reverb_handle = Some reverb_instance"
    by (simp add: reverb_handle_def)
  have h2: "outputBuses reverb_instance \<noteq> [] \<or> inputBuses reverb_instance = []"
    by (simp add: reverb_instance_def)
  have c: "getChannelCountOfBus reverb_instance True 0 \<noteq> 3"
    by (simp add: getChannelCountOfBus_def getBus_def getBusCount_def buses_def
          reverb_instance_def)
  have b1: "pluginInstance busless_handle =
              Some \<lparr>getName = ''Midi'', inputBuses = [], outputBuses = [],
                    getParameters = [], nativeState = []\<rparr>"
    by (simp add: busless_handle_def)
  have b2: "outputBuses \<lparr>getName = ''Midi'', inputBuses = [], outputBuses = [],
                         getParameters = [], nativeState = []\<rparr> \<noteq> []
            \<or> inputBuses \<lparr>getName = ''Midi'', inputBuses = [], outputBuses = [],
                            getParameters = [], nativeState = []\<rparr> = []"
    by simp
  show ?thesis
    using h1 h2 c b1
      setNumChannels_outcomes [OF h1 h2, of "example_host :: int juce" 3]
      setNumChannels_outcomes [OF b1 b2, of "example_host :: int juce" 2]
      setNumChannels_reverb_3 setNumChannels_reverb_1 setNumChannels_busless_2
    by (simp add: reverb_instance_def)
qed

text \<open>
  The claim as stated fails on an instrument, which has no input bus: the
  exception names the plugin and neither the requested count nor any channel
  count.
\<close>

theorem setNumChannels_without_input_bus:
  "fst (setNumChannels (example_host :: int juce) synth_handle 2) =
     Inl (invalid_argument
            (''Plugin '' @ [CHR 0x27] @ ''Synth'' @ [CHR 0x27]
             @ '' does not accept audio input. It may be an instrument plug-in ''
             @ ''and not an audio effect processor.''))
   \<and> \<not> sublist (to_string 2)
         (''Plugin '' @ [CHR 0x27] @ ''Synth'' @ [CHR 0x27]
          @ '' does not accept audio input. It may be an instrument plug-in ''
          @ ''and not an audio effect processor.'')"
proof -
  note r = setNumChannels_synth_2
  have "CHR ''2'' \<notin> set (''Plugin '' @ [CHR 0x27] @ ''Synth'' @ [CHR 0x27]
          @ '' does not accept audio input. It may be an instrument plug-in ''
          @ ''and not an audio effect processor.'')"
    by simp
  then have "\<not> sublist ''2'' (''Plugin '' @ [CHR 0x27] @ ''Synth'' @ [CHR 0x27]
          @ '' does not accept audio input. It may be an instrument plug-in ''
          @ ''and not an audio effect processor.'')"
    using set_mono_sublist [of "''2''"] by fastforce
  with r show ?thesis by (simp only: to_string_digits) simp
qed

subsection \<open>Block processing\<close>

text \<open>
  \<open>process\<close> stores one pointer per channel of the caller's block into
  \<open>channelPointers\<close>, whose size is the number of channels of the enabled input
  buses, before it compares the channel counts. A block with more channels
  than that leaves defined behaviour at the store; a block with no more
  channels than that whose count differs from the main input bus, or exceeds
  the main output bus, gets the \<open>invalid_argument\<close> and is left as it was.
\<close>

lemma storeCallerPointers_length:
  "storeCallerPointers idxs ps = Inr qs \<Longrightarrow> length qs = length ps"
  by (induction idxs arbitrary: ps) (auto split: if_splits)

lemma storeCallerPointers_in_range:
  "\<forall>i \<in> set idxs. i < length ps \<Longrightarrow> \<exists>qs. storeCallerPointers idxs ps = Inr qs"
  by (induction idxs arbitrary: ps) auto

lemma storeCallerPointers_out_of_range:
  "k \<le> length ps \<Longrightarrow> length ps < n \<Longrightarrow>
     storeCallerPointers [k..<n] ps
       = Inl (undefined_behaviour ''channelPointers indexed out of range'')"
proof (induction "length ps - k" arbitrary: k ps)
  case 0
  then have "k = length ps" by simp
  with "0.prems" show ?case by (simp add: upt_conv_Cons)
next
  case (Suc d)
  then have lt: "k < length ps" by simp
  have "storeCallerPointers [Suc k..<n] (ps[k := CallerChannel k])
          = Inl (undefined_behaviour ''channelPointers indexed out of range'')"
    using Suc.hyps(2) Suc.prems lt by (intro Suc.hyps(1)) simp_all
  with lt Suc.prems show ?case by (simp add: upt_conv_Cons)
qed

lemma process_wider_block:
  assumes "pluginInstance h = Some inst"
    and "\<not> usesSeparateInputAndOutputBlocks context"
    and "pluginBufferChannelCount (inputBuses inst) 0 < getNumChannels_block (getOutputBlock context)"
  shows "process env h context =
           (Inl (undefined_behaviour ''channelPointers indexed out of range''),
            h, getOutputBlock context)"
  using assms storeCallerPointers_out_of_range
          [of 0 "replicate (pluginBufferChannelCount (inputBuses inst) 0) NullPointer"
              "getNumChannels_block (getOutputBlock context)"]
  by (simp add: process_def Let_def)

lemma process_mismatch_within_capacity:
  assumes "pluginInstance h = Some inst"
    and "\<not> usesSeparateInputAndOutputBlocks context"
    and "getNumChannels_block (getOutputBlock context)
           \<le> pluginBufferChannelCount (inputBuses inst) 0"
    and "size_t_of_int (getMainBusNumInputChannels inst)
           \<noteq> getNumChannels_block (getOutputBlock context)
         \<or> size_t_of_int (getMainBusNumOutputChannels inst)
             < getNumChannels_block (getOutputBlock context)"
  shows "\<exists>m. process env h context = (Inl (invalid_argument m), h, getOutputBlock context)"
proof -
  obtain qs where "storeCallerPointers [0..<getNumChannels_block (getOutputBlock context)]
                     (replicate (pluginBufferChannelCount (inputBuses inst) 0) NullPointer)
                   = Inr qs"
    using storeCallerPointers_in_range
            [of "[0..<getNumChannels_block (getOutputBlock context)]"
                "replicate (pluginBufferChannelCount (inputBuses inst) 0) NullPointer"]
          assms(3)
    by auto
  with assms show ?thesis by (auto simp: process_def Let_def)
qed

lemma prepare_mono:
  "prepare (example_host :: int juce) reverb_handle mono_spec = (Inr (), mono_reverb_handle)"
proof -
  have "pluginInstance reverb_handle = Some reverb_instance"
    by (simp add: reverb_handle_def)
  moreover have "sint (numChannels mono_spec) = 1"
    by (simp add: mono_spec_def)
  moreover have "mono_reverb_handle\<lparr>pluginInstance := pluginInstance mono_reverb_handle\<rparr>
                   = mono_reverb_handle"
    by simp
  ultimately show ?thesis
    by (simp add: prepare_def setNumChannels_reverb_1 example_host_buses option.map_ident)
qed

text \<open>
  Claim C2 says that a block whose channel count differs from the main input
  channel count makes \<open>process\<close> throw the channel-mismatch exception and leaves
  the block untouched. The code at a plugin prepared for one channel and a
  block of two channels: the second pointer is stored past the end of the
  one-element \<open>channelPointers\<close> before any count is compared.
\<close>

theorem process_stereo_block_on_mono_plugin:
  "prepare (example_host :: int juce) reverb_handle mono_spec = (Inr (), mono_reverb_handle)
   \<and> map_option getMainBusNumInputChannels (pluginInstance mono_reverb_handle) = Some 1
   \<and> getNumChannels_block stereo_block = 2
   \<and> process (example_host :: int juce) mono_reverb_handle
        \<lparr>usesSeparateInputAndOutputBlocks = False, getOutputBlock = stereo_block\<rparr>
       = (Inl (undefined_behaviour ''channelPointers indexed out of range''),
          mono_reverb_handle, stereo_block)"
proof -
  have a: "map_option getMainBusNumInputChannels (pluginInstance mono_reverb_handle) = Some 1"
    by (simp add: mono_reverb_handle_def getMainBusNumInputChannels_def
          getChannelCountOfBus_def getBus_def getBusCount_def buses_def)
  have b: "getNumChannels_block stereo_block = 2"
    by (simp add: getNumChannels_block_def stereo_block_def)
  have c: "process (example_host :: int juce) mono_reverb_handle
        \<lparr>usesSeparateInputAndOutputBlocks = False, getOutputBlock = stereo_block\<rparr>
       = (Inl (undefined_behaviour ''channelPointers indexed out of range''),
          mono_reverb_handle, stereo_block)"
    using process_wider_block
            [of mono_reverb_handle mono_instance
                "\<lparr>usesSeparateInputAndOutputBlocks = False, getOutputBlock = stereo_block\<rparr>"
                "example_host :: int juce"]
    by (simp add: mono_reverb_handle_def mono_instance_def getNumChannels_block_def
          stereo_block_def size_t_of_int_def)
  from prepare_mono a b c show ?thesis by simp
qed

subsection \<open>Parameter lookup\<close>

lemma findParameter_None:
  "findParameter name ps = None \<longleftrightarrow> (\<forall>p \<in> set ps. param_getName p 512 \<noteq> name)"
  by (induction ps) auto

lemma findParameter_Some:
  "findParameter name ps = Some p \<Longrightarrow>
     \<exists>k < length ps. ps ! k = p \<and> param_getName p 512 = name
        \<and> (\<forall>j < k. param_getName (ps ! j) 512 \<noteq> name)"
proof (induction ps)
  case Nil
  then show ?case by simp
next
  case (Cons q qs)
  show ?case
  proof (cases "param_getName q 512 = name")
    case True
    with Cons.prems have "q = p" by simp
    with True show ?thesis by (intro exI [of _ 0]) simp
  next
    case False
    with Cons.prems have "findParameter name qs = Some p" by simp
    from Cons.IH [OF this] obtain k where k: "k < length qs" "qs ! k = p"
      "param_getName p 512 = name" "\<forall>j < k. param_getName (qs ! j) 512 \<noteq> name"
      by blast
    have "\<forall>j < Suc k. param_getName ((q # qs) ! j) 512 \<noteq> name"
      using False k(4) by (auto simp: nth_Cons split: nat.splits)
    with k show ?thesis by (intro exI [of _ "Suc k"]) simp
  qed
qed

text \<open>
  Claim C8. On a handle that holds an instance, \<open>getParameter\<close> returns the first
  parameter of the list whose name at length 512 equals the given name, and
  returns the null pointer, without throwing, when there is none.
\<close>

theorem getParameter_first_match:
  assumes "pluginInstance h = Some inst"
  shows "case getParameter h name of
           Inl e \<Rightarrow> False
         | Inr None \<Rightarrow> \<forall>p \<in> set (getParameters inst). param_getName p 512 \<noteq> name
         | Inr (Some p) \<Rightarrow>
             \<exists>k < length (getParameters inst).
                getParameters inst ! k = p \<and> param_getName p 512 = name
                \<and> (\<forall>j < k. param_getName (getParameters inst ! j) 512 \<noteq> name)"
proof (cases "findParameter name (getParameters inst)")
  case None
  then have "\<forall>p \<in> set (getParameters inst). param_getName p 512 \<noteq> name"
    by (simp add: findParameter_None)
  with None assms show ?thesis by (simp add: getParameter_def)
next
  case (Some p)
  from findParameter_Some [OF this] show ?thesis
    using assms Some by (simp add: getParameter_def)
qed

theorem getParameter_first_match_witness:
  "pluginInstance reverb_handle = Some reverb_instance
   \<and> (case getParameter reverb_handle ''Mix'' of
         Inl e \<Rightarrow> False
       | Inr None \<Rightarrow> \<forall>p \<in> set (getParameters reverb_instance). param_getName p 512 \<noteq> ''Mix''
       | Inr (Some p) \<Rightarrow>
           \<exists>k < length (getParameters reverb_instance).
              getParameters reverb_instance ! k = p \<and> param_getName p 512 = ''Mix''
              \<and> (\<forall>j < k. param_getName (getParameters reverb_instance ! j) 512 \<noteq> ''Mix''))
   \<and> map_sum id (map_option getParameterIndex) (getParameter reverb_handle ''Mix'') = Inr (Some 0)
   \<and> map_sum id (map_option getParameterIndex) (getParameter reverb_handle ''Gain'') = Inr None"
proof -
  have h: "pluginInstance reverb_handle = Some reverb_instance"
    by (simp add: reverb_handle_def)
  have "map_sum id (map_option getParameterIndex) (getParameter reverb_handle ''Mix'') = Inr (Some 0)"
    by (simp add: getParameter_def reverb_handle_def reverb_instance_def)
  moreover have "map_sum id (map_option getParameterIndex) (getParameter reverb_handle ''Gain'') = Inr None"
    by (simp add: getParameter_def reverb_handle_def reverb_instance_def)
  ultimately show ?thesis
    using h getParameter_first_match [OF h, of "''Mix''"] by simp
qed

subsection \<open>Processing without an instance\<close>

text \<open>
  Claim C10. On a handle that holds no instance, \<open>process\<close> returns normally and
  leaves the caller's block as it was, whatever the context says about
  separate input and output blocks.
\<close>

theorem process_without_instance:
  "pluginInstance h = None \<Longrightarrow> process env h context = (Inr (), h, getOutputBlock context)"
  by (simp add: process_def)

theorem process_without_instance_witness:
  "pluginInstance (reverb_handle\<lparr>pluginInstance := None\<rparr>) = None
   \<and> process (example_host :: int juce) (reverb_handle\<lparr>pluginInstance := None\<rparr>)
         \<lparr>usesSeparateInputAndOutputBlocks = True, getOutputBlock = stereo_block\<rparr>
       = (Inr (), reverb_handle\<lparr>pluginInstance := None\<rparr>, stereo_block)"
  using process_without_instance
    [of "reverb_handle\<lparr>pluginInstance := None\<rparr>" "example_host :: int juce"
        "\<lparr>usesSeparateInputAndOutputBlocks = True, getOutputBlock = stereo_block\<rparr>"]
  by simp

end
